theory Spec2Isabelle
  imports Complex_Main "HOL-Library.Sublist"
begin

section \<open>Data model shared by the two Lambda handlers\<close>

text \<open>
  The two handlers (\<^verbatim>\<open>downscale.py\<close> and \<^verbatim>\<open>autoscale_up.py\<close>) talk to RDS, CloudWatch, EC2
  and EventBridge Scheduler through boto3 clients. Every client call either returns a response
  or raises; a call is modelled as a value of \<open>error + response\<close>, with \<open>Inl\<close> the exception.
  \<open>ClientError\<close> is \<^verbatim>\<open>botocore.exceptions.ClientError\<close> (the service answered with an error;
  the string is \<^verbatim>\<open>str(e)\<close>), \<open>ResourceNotFoundException\<close> is the modelled scheduler exception,
  and \<open>OtherException\<close> is any exception that is not a \<^verbatim>\<open>ClientError\<close> (connection failure,
  timeout, parameter validation, \<^verbatim>\<open>KeyError\<close>, ...).
\<close>

datatype error =
    ClientError string
  | ResourceNotFoundException string
  | OtherException string

fun str :: "error \<Rightarrow> string" where
  "str (ClientError m) = m"
| "str (ResourceNotFoundException m) = m"
| "str (OtherException m) = m"

text \<open>
  One entry of \<^verbatim>\<open>describe_db_instances()['DBInstances']\<close>. Keys the code reads with
  \<^verbatim>\<open>.get\<close> or tests with \<^verbatim>\<open>in\<close> are optional; \<open>InstanceCreateTime\<close> is a timestamp
  (seconds), compared as Python compares datetimes.
\<close>

record db_instance =
  DBInstanceIdentifier :: string
  DBInstanceStatus :: string
  InstanceCreateTime :: "int option"
  DBInstanceArn :: string
  DBClusterIdentifier :: "string option"
  AvailabilityZone :: "string option"
  IsClusterWriter :: "bool option"

text \<open>One entry of \<^verbatim>\<open>cluster['DBClusterMembers']\<close> and one cluster of \<^verbatim>\<open>describe_db_clusters\<close>.\<close>

record db_cluster_member =
  MemberIdentifier :: string
  MemberIsClusterWriter :: bool

record db_cluster =
  DBClusterMembers :: "db_cluster_member list"

text \<open>
  One entry of \<^verbatim>\<open>get_metric_data(...)['MetricDataResults']\<close>. \<open>ResultIndex\<close> is the value of
  \<^verbatim>\<open>int(result['Id'][1:])\<close>, \<open>None\<close> when that expression raises. A utilisation sample is a
  finite binary64 value, given as the real number it denotes.
\<close>

record metric_result =
  ResultIndex :: "int option"
  Values :: "real list"

text \<open>
  Python's floating-point operations as the scale-down handler uses them: \<open>float_sum xs\<close> is
  \<^verbatim>\<open>sum(xs)\<close> on a list of floats and \<open>float_div x n\<close> is \<^verbatim>\<open>x / n\<close> for a float \<open>x\<close> and an
  int \<open>n\<close>. How the two operations round is left open: they are parameters of the handler,
  so that what is proved holds for IEEE-754 arithmetic and for every summation algorithm.
  Comparing two finite floats is comparing the reals they denote.
\<close>

record float_arith =
  float_sum :: "real list \<Rightarrow> real"
  float_div :: "real \<Rightarrow> nat \<Rightarrow> real"

text \<open>
  The EventBridge Scheduler as both handlers see it: \<^verbatim>\<open>get_schedule\<close> raises
  \<open>get_schedule_error\<close> when that is set and otherwise returns the schedule, whose
  \<^verbatim>\<open>State\<close> is \<open>schedule_state\<close>; \<^verbatim>\<open>update_schedule\<close> raises \<open>update_schedule_error\<close> when that
  is set and otherwise stores the new state.
\<close>

record scheduler =
  get_schedule_error :: "error option"
  schedule_state :: string
  update_schedule_error :: "error option"

text \<open>
  What the scale-down handler can observe during one invocation: the answers of the RDS and
  CloudWatch clients, and the scheduler, which the handler itself may change.
\<close>

record world =
  describe_db_clusters :: "error + db_cluster list"
  get_metric_data :: "string list \<Rightarrow> error + metric_result list"
  describe_db_instances :: "error + db_instance list"
  describe_db_instance :: "string \<Rightarrow> error + db_instance list"
  list_tags_for_resource :: "string \<Rightarrow> error + (string \<times> string) list"
  delete_db_instance :: "string \<Rightarrow> error option"
  sched :: scheduler

section \<open>Python dictionaries with insertion order\<close>

text \<open>
  \<^verbatim>\<open>d[k] = v\<close> on an insertion-ordered dictionary: an existing key keeps its position.
\<close>

fun dict_set :: "'k \<Rightarrow> 'v \<Rightarrow> ('k \<times> 'v) list \<Rightarrow> ('k \<times> 'v) list" where
  "dict_set k v [] = [(k, v)]"
| "dict_set k v (p # ps) = (if fst p = k then (k, v) # ps else p # dict_set k v ps)"

definition dict_get :: "('k \<times> 'v) list \<Rightarrow> 'k \<Rightarrow> 'v option" where
  "dict_get d k = map_of d k"


section \<open>downscale.py: the ownership verifier\<close>

definition REQUIRED_TAGS_FOR_DELETION :: "(string \<times> string) list" where
  "REQUIRED_TAGS_FOR_DELETION =
     [(''ManagedBy'', ''aurora-autoscaler''), (''AutoScaler'', ''lambda-managed'')]"

text \<open>\<^verbatim>\<open>{tag['Key']: tag['Value'] for tag in TagList}\<close>: a later tag overrides an earlier one.\<close>

definition tags_dict :: "(string \<times> string) list \<Rightarrow> (string \<times> string) list" where
  "tags_dict tag_list = foldl (\<lambda>d (k, v). dict_set k v d) [] tag_list"

text \<open>The list \<^verbatim>\<open>missing_tags\<close>, as the required pairs that do not match.\<close>

definition missing_tags :: "(string \<times> string) list \<Rightarrow> (string \<times> string) list" where
  "missing_tags instance_tags =
     filter (\<lambda>(key, expected_value). dict_get instance_tags key \<noteq> Some expected_value)
       REQUIRED_TAGS_FOR_DELETION"

definition is_lambda_managed_instance :: "world \<Rightarrow> string \<Rightarrow> bool" where
  "is_lambda_managed_instance w instance_identifier =
     (case describe_db_instance w instance_identifier of
        Inl e \<Rightarrow> False
      | Inr [] \<Rightarrow> False
      | Inr (inst # _) \<Rightarrow>
          (case list_tags_for_resource w (DBInstanceArn inst) of
             Inl e \<Rightarrow> False
           | Inr tag_list \<Rightarrow>
               (if missing_tags (tags_dict tag_list) \<noteq> [] then False else True)))"

section \<open>downscale.py: scheduler reconciliation\<close>

text \<open>
  What a handler does to the outside, in the order it does it. \<open>Reconcile s\<close> marks an entry
  into \<^verbatim>\<open>check_and_disable_eventbridge(s)\<close>; \<open>Notify subject\<close> is a call of \<^verbatim>\<open>notify\<close>
  (which swallows its own failures); \<open>UpdateSchedule st\<close> is a call of
  \<^verbatim>\<open>scheduler.update_schedule(..., State=st)\<close>, whether or not it raises. The scale-up
  handler adds the capacity probe's calls (instance type, zone), the provisioning call and
  the log lines of the probe's outcome.
\<close>

datatype event =
    Notify string
  | Reconcile "db_instance list"
  | GetSchedule
  | UpdateSchedule string
  | DeleteDBInstance string
  | CreateCapacityReservation string string
  | CancelCapacityReservation string
  | CreateDBInstance string string
  | LogInfo string
  | LogError string

definition is_lambda_name :: "db_instance \<Rightarrow> bool" where
  "is_lambda_name inst = prefix ''lambda-aurora-reader'' (DBInstanceIdentifier inst)"

text \<open>
  The inner \<^verbatim>\<open>try\<close> of \<^verbatim>\<open>check_and_disable_eventbridge\<close>: read the schedule, return when it is
  already \<^verbatim>\<open>DISABLED\<close>, otherwise update it. \<^verbatim>\<open>ResourceNotFoundException\<close> is logged only,
  any other exception is logged and notified.
\<close>

definition schedule_error_events :: "error \<Rightarrow> event list" where
  "schedule_error_events e =
     (case e of
        ResourceNotFoundException _ \<Rightarrow> []
      | _ \<Rightarrow> [Notify ''Aurora Auto-Scaler: Schedule Management Error''])"

definition disable_schedule :: "world \<Rightarrow> world \<times> event list" where
  "disable_schedule w =
     (case get_schedule_error (sched w) of
        Some e \<Rightarrow> (w, GetSchedule # schedule_error_events e)
      | None \<Rightarrow>
          if schedule_state (sched w) = ''DISABLED'' then (w, [GetSchedule])
          else
            (case update_schedule_error (sched w) of
               Some e \<Rightarrow>
                 (w, [GetSchedule, UpdateSchedule ''DISABLED''] @ schedule_error_events e)
             | None \<Rightarrow>
                 (w\<lparr>sched := (sched w)\<lparr>schedule_state := ''DISABLED''\<rparr>\<rparr>,
                  [GetSchedule, UpdateSchedule ''DISABLED'',
                   Notify ''Aurora Auto-Scaler: Schedule Disabled''])))"

definition lambda_instances_of :: "db_instance list \<Rightarrow> db_instance list" where
  "lambda_instances_of instances =
     filter (\<lambda>inst. is_lambda_name inst \<and> DBInstanceStatus inst \<noteq> ''deleting'') instances"

definition tagged_lambda_instances :: "world \<Rightarrow> db_instance list \<Rightarrow> db_instance list" where
  "tagged_lambda_instances w instances =
     filter (\<lambda>inst. is_lambda_managed_instance w (DBInstanceIdentifier inst))
       (lambda_instances_of instances)"

definition check_and_disable_eventbridge :: "world \<Rightarrow> db_instance list \<Rightarrow> world \<times> event list" where
  "check_and_disable_eventbridge w instances =
     (if tagged_lambda_instances w instances \<noteq> [] then (w, [Reconcile instances])
      else (let (w', ev) = disable_schedule w in (w', Reconcile instances # ev)))"

section \<open>downscale.py: the scale-down handler\<close>

record response =
  statusCode :: nat
  body :: string

text \<open>\<^verbatim>\<open>readers[int(result['Id'][1:])]\<close>: Python indexing, a negative index counts from the end.\<close>

definition reader_of_result :: "string list \<Rightarrow> int option \<Rightarrow> error + string" where
  "reader_of_result readers idx =
     (case idx of
        None \<Rightarrow> Inl (OtherException ''invalid literal for int()'')
      | Some i \<Rightarrow>
          (let n = int (length readers); j = (if i < 0 then n + i else i)
           in if 0 \<le> j \<and> j < n then Inr (readers ! nat j)
              else Inl (OtherException ''list index out of range'')))"

text \<open>
  Step 3, the loop over \<^verbatim>\<open>response['MetricDataResults']\<close>: the accumulator is
  \<^verbatim>\<open>reader_cpu_values\<close>, extended by the samples of every result that has any.
\<close>

fun process_metrics :: "string list \<Rightarrow> metric_result list \<Rightarrow> real list \<Rightarrow> error + real list" where
  "process_metrics readers [] reader_cpu_values = Inr reader_cpu_values"
| "process_metrics readers (result # results) reader_cpu_values =
     (if Values result \<noteq> [] then
        (case reader_of_result readers (ResultIndex result) of
           Inl e \<Rightarrow> Inl e
         | Inr reader_id \<Rightarrow> process_metrics readers results (reader_cpu_values @ Values result))
      else process_metrics readers results reader_cpu_values)"

text \<open>Step 4: \<^verbatim>\<open>avg_cpu = sum(reader_cpu_values) / len(reader_cpu_values)\<close>.\<close>

definition avg_cpu :: "float_arith \<Rightarrow> real list \<Rightarrow> real" where
  "avg_cpu fa reader_cpu_values =
     float_div fa (float_sum fa reader_cpu_values) (length reader_cpu_values)"

text \<open>Step 5: the filter that builds \<^verbatim>\<open>lambda_readers\<close>.\<close>

definition lambda_readers_of :: "db_instance list \<Rightarrow> db_instance list" where
  "lambda_readers_of instances =
     filter (\<lambda>inst. is_lambda_name inst \<and> DBInstanceStatus inst = ''available''
               \<and> InstanceCreateTime inst \<noteq> None) instances"

text \<open>
  Step 6: \<^verbatim>\<open>sorted(lambda_readers, key=lambda x: x['InstanceCreateTime'])[-1]\<close>. Python's
  \<^verbatim>\<open>sorted\<close> is stable, as \<open>sort_key\<close> is; the handler calls this on a non-empty list only.
\<close>

definition latest_reader :: "db_instance list \<Rightarrow> db_instance" where
  "latest_reader lambda_readers = last (sort_key (\<lambda>x. the (InstanceCreateTime x)) lambda_readers)"

text \<open>
  The handler's \<^verbatim>\<open>try\<close> block. It yields the response, the value of the variable
  \<^verbatim>\<open>instances\<close> at exit, the world and the events so far. Each stage is one step of the source.
  Deleting an instance does not change what the handler reads afterwards (the instance and
  its tags stay readable while it is being deleted), so the deletion is an event only.
  Response bodies are the source's strings, with \<^verbatim>\<open>str(e)\<close> for the exception text; the
  cluster-not-found message leaves out the cluster identifier.
\<close>

type_synonym handler_exit = "response \<times> db_instance list \<times> world \<times> event list"

definition fail_exit :: "string \<Rightarrow> string \<Rightarrow> db_instance list \<Rightarrow> world \<Rightarrow> handler_exit" where
  "fail_exit subject error_msg instances w =
     (\<lparr>statusCode = 500, body = error_msg\<rparr>, instances, w, [Notify subject])"

definition reconciled_exit ::
  "string \<Rightarrow> nat \<Rightarrow> string \<Rightarrow> db_instance list \<Rightarrow> db_instance list \<Rightarrow> world \<Rightarrow> handler_exit" where
  "reconciled_exit subject code msg snapshot instances w =
     (let (w', ev) = check_and_disable_eventbridge w snapshot
      in (\<lparr>statusCode = code, body = msg\<rparr>, instances, w', Notify subject # ev))"

definition delete_step :: "world \<Rightarrow> db_instance list \<Rightarrow> db_instance list \<Rightarrow> handler_exit" where
  "delete_step w instances lambda_readers =
     (let latest_id = DBInstanceIdentifier (latest_reader lambda_readers) in
      if \<not> is_lambda_managed_instance w latest_id then
        reconciled_exit ''Aurora Auto-Scaler: Security Protection'' 403
          ''Instance deletion blocked - missing required tags'' instances instances w
      else
        (case delete_db_instance w latest_id of
           Some e \<Rightarrow>
             (\<lparr>statusCode = 500,
               body = ''Failed to delete instance '' @ latest_id @ '': '' @ str e\<rparr>,
              instances, w,
              [DeleteDBInstance latest_id, Notify ''Aurora Auto-Scaler: Deletion Error''])
         | None \<Rightarrow>
             (\<lparr>statusCode = 200, body = ''Successfully deleted '' @ latest_id\<rparr>,
              instances, w,
              [DeleteDBInstance latest_id, Notify ''Aurora Auto-Scaler: Successful Deletion''])))"

definition select_step :: "world \<Rightarrow> handler_exit" where
  "select_step w =
     (case describe_db_instances w of
        Inl e \<Rightarrow>
          fail_exit ''Aurora Auto-Scaler: Instance Fetch Error''
            (''Failed to fetch RDS instances: '' @ str e) [] w
      | Inr instances \<Rightarrow>
          (let lambda_readers = lambda_readers_of instances in
           if lambda_readers = [] then
             reconciled_exit ''Aurora Auto-Scaler: No Lambda Readers'' 200
               ''No lambda readers to remove'' instances instances w
           else delete_step w instances lambda_readers))"

definition metrics_step ::
  "float_arith \<Rightarrow> real \<Rightarrow> world \<Rightarrow> string list \<Rightarrow> handler_exit" where
  "metrics_step fa CPU_THRESHOLD w readers =
     (case get_metric_data w readers of
        Inl e \<Rightarrow>
          fail_exit ''Aurora Auto-Scaler: Metrics Error''
            (''Failed to fetch CPU metrics: '' @ str e) [] w
      | Inr results \<Rightarrow>
          (case process_metrics readers results [] of
             Inl e \<Rightarrow>
               fail_exit ''Aurora Auto-Scaler: Critical Error''
                 (''Unexpected error in lambda_handler: '' @ str e) [] w
           | Inr reader_cpu_values \<Rightarrow>
               if reader_cpu_values = [] then
                 reconciled_exit ''Aurora Auto-Scaler: No Data'' 200
                   ''No CPU data available'' [] [] w
               else if avg_cpu fa reader_cpu_values \<ge> CPU_THRESHOLD then
                 reconciled_exit ''Aurora Auto-Scaler: No Action'' 200
                   ''CPU above threshold, no action needed'' [] [] w
               else select_step w))"

definition cluster_readers :: "db_cluster \<Rightarrow> string list" where
  "cluster_readers cluster =
     map MemberIdentifier (filter (\<lambda>m. \<not> MemberIsClusterWriter m) (DBClusterMembers cluster))"

definition handler_try :: "float_arith \<Rightarrow> real \<Rightarrow> world \<Rightarrow> handler_exit" where
  "handler_try fa CPU_THRESHOLD w =
     (case describe_db_clusters w of
        Inl e \<Rightarrow>
          fail_exit ''Aurora Auto-Scaler: Cluster Error''
            (''Failed to fetch cluster information: '' @ str e) [] w
      | Inr [] \<Rightarrow>
          fail_exit ''Aurora Auto-Scaler: Cluster Error''
            ''Failed to fetch cluster information: Cluster not found'' [] w
      | Inr (cluster # _) \<Rightarrow>
          (let readers = cluster_readers cluster in
           if readers = [] then
             reconciled_exit ''Aurora Auto-Scaler: Skipped'' 200
               ''No readers to evaluate'' [] [] w
           else metrics_step fa CPU_THRESHOLD w readers))"

text \<open>
  \<^verbatim>\<open>lambda_handler\<close>: the \<^verbatim>\<open>try\<close> block, then the \<^verbatim>\<open>finally\<close> block, which calls
  \<^verbatim>\<open>check_and_disable_eventbridge(instances)\<close> with the variable's value at exit.
\<close>

definition lambda_handler ::
  "float_arith \<Rightarrow> real \<Rightarrow> world \<Rightarrow> response \<times> world \<times> event list" where
  "lambda_handler fa CPU_THRESHOLD w =
     (let (resp, instances, w1, ev1) = handler_try fa CPU_THRESHOLD w;
          (w2, ev2) = check_and_disable_eventbridge w1 instances
      in (resp, w2, ev1 @ ev2))"

text \<open>The snapshots that scheduler reconciliation was called with, in order.\<close>

fun reconcile_calls :: "event list \<Rightarrow> db_instance list list" where
  "reconcile_calls [] = []"
| "reconcile_calls (Reconcile s # ev) = s # reconcile_calls ev"
| "reconcile_calls (_ # ev) = reconcile_calls ev"

fun deleted_ids :: "event list \<Rightarrow> string list" where
  "deleted_ids [] = []"
| "deleted_ids (DeleteDBInstance i # ev) = i # deleted_ids ev"
| "deleted_ids (_ # ev) = deleted_ids ev"

text \<open>
  The shape of every exit of the \<^verbatim>\<open>try\<close> block: an error exit and an exit after a deletion
  request have not called scheduler reconciliation, every other exit has called it once.
\<close>

definition exit_ok :: "handler_exit \<Rightarrow> bool" where
  "exit_ok x = (case x of (resp, insts, w', ev) \<Rightarrow>
      length (reconcile_calls ev) = (if statusCode resp = 500 \<or> deleted_ids ev \<noteq> [] then 0 else 1)
      \<and> statusCode resp \<in> {200, 403, 500}
      \<and> (deleted_ids ev \<noteq> [] \<longrightarrow> statusCode resp \<in> {200, 500}))"

section \<open>autoscale\_up.py: configuration and the distribution analyzer\<close>

text \<open>The environment variables the scale-up handler reads at import time.\<close>

record up_config =
  DB_CLUSTER_ID :: "string option"
  PREFERRED_INSTANCE_TYPE :: string
  INSTANCE_TYPES_PRIORITY :: "string list"
  AVAILABILITY_ZONES :: "string list"
  FALLBACK_STRATEGY :: string

text \<open>\<^verbatim>\<open>{az: 0 for az in AVAILABILITY_ZONES}\<close>\<close>

definition initial_readers_per_az :: "string list \<Rightarrow> (string \<times> nat) list" where
  "initial_readers_per_az azs = foldl (\<lambda>d az. dict_set az 0 d) [] azs"

text \<open>
  The condition under which the loop body counts \<^verbatim>\<open>db\<close>, without the test that its zone is
  a key of the dictionary. The status list is the source's.
\<close>

definition counted_reader :: "up_config \<Rightarrow> db_instance \<Rightarrow> bool" where
  "counted_reader cfg db =
     (DBClusterIdentifier db = DB_CLUSTER_ID cfg \<and>
      \<not> (case IsClusterWriter db of None \<Rightarrow> False | Some b \<Rightarrow> b) \<and>
      DBInstanceStatus db \<notin> set [''deleting'', ''insufficient activity''])"

definition count_instance ::
  "up_config \<Rightarrow> (string \<times> nat) list \<Rightarrow> db_instance \<Rightarrow> (string \<times> nat) list" where
  "count_instance cfg readers_per_az db =
     (if counted_reader cfg db then
        (case AvailabilityZone db of
           None \<Rightarrow> readers_per_az
         | Some az \<Rightarrow>
             (case dict_get readers_per_az az of
                None \<Rightarrow> readers_per_az
              | Some n \<Rightarrow> dict_set az (n + 1) readers_per_az))
      else readers_per_az)"

text \<open>
  \<^verbatim>\<open>get_aurora_readers_per_az\<close>: the argument is the outcome of
  \<^verbatim>\<open>rds_client.describe_db_instances()\<close>; an exception is logged and raised again.
\<close>

definition get_aurora_readers_per_az ::
  "up_config \<Rightarrow> error + db_instance list \<Rightarrow> error + (string \<times> nat) list" where
  "get_aurora_readers_per_az cfg listing =
     (case listing of
        Inl e \<Rightarrow> Inl e
      | Inr instances \<Rightarrow>
          Inr (foldl (count_instance cfg) (initial_readers_per_az (AVAILABILITY_ZONES cfg))
                 instances))"

section \<open>autoscale\_up.py: capacity probe, provisioning and the candidate loops\<close>

text \<open>
  The EC2 and RDS clients of the scale-up handler, over a provider state \<open>'p\<close> that every
  call may change, so that the same question can get different answers during one run.
\<close>

record 'p provider =
  rds_describe_db_instances :: "'p \<Rightarrow> error + db_instance list"
  ec2_create_capacity_reservation :: "'p \<Rightarrow> string \<Rightarrow> string \<Rightarrow> (error + string) \<times> 'p"
  ec2_cancel_capacity_reservation :: "'p \<Rightarrow> string \<Rightarrow> error option \<times> 'p"
  rds_create_db_instance :: "'p \<Rightarrow> string \<Rightarrow> string \<Rightarrow> (error + string) \<times> 'p"

record 'p up_state =
  prov :: 'p
  up_sched :: scheduler
  trace :: "event list"

definition emit :: "event list \<Rightarrow> 'p up_state \<Rightarrow> 'p up_state" where
  "emit ev st = st\<lparr>trace := trace st @ ev\<rparr>"

text \<open>
  \<^verbatim>\<open>except botocore.exceptions.ClientError\<close> catches the service's error responses, modelled
  service exceptions included, and nothing else.
\<close>

fun is_client_error :: "error \<Rightarrow> bool" where
  "is_client_error (ClientError _) = True"
| "is_client_error (ResourceNotFoundException _) = True"
| "is_client_error (OtherException _) = False"

text \<open>The \<^verbatim>\<open>except\<close> clause of \<^verbatim>\<open>check_capacity\<close>.\<close>

definition capacity_except :: "error \<Rightarrow> 'p up_state \<Rightarrow> (error + bool) \<times> 'p up_state" where
  "capacity_except e st =
     (if is_client_error e then
        (if sublist ''InsufficientInstanceCapacity'' (str e)
         then (Inr False, emit [LogInfo ''NO CAPACITY''] st)
         else (Inr False, emit [LogError ''ODCR error'', LogInfo ''ERROR''] st))
      else (Inl e, st))"

definition check_capacity ::
  "'p provider \<Rightarrow> string \<Rightarrow> string \<Rightarrow> 'p up_state \<Rightarrow> (error + bool) \<times> 'p up_state" where
  "check_capacity P instance_type availability_zone st =
     (case ec2_create_capacity_reservation P (prov st) instance_type availability_zone of
        (Inl e, p1) \<Rightarrow>
          capacity_except e
            (emit [CreateCapacityReservation instance_type availability_zone] (st\<lparr>prov := p1\<rparr>))
      | (Inr reservation_id, p1) \<Rightarrow>
          (case ec2_cancel_capacity_reservation P p1 reservation_id of
             (Some e, p2) \<Rightarrow>
               capacity_except e
                 (emit [CreateCapacityReservation instance_type availability_zone,
                        CancelCapacityReservation reservation_id] (st\<lparr>prov := p2\<rparr>))
           | (None, p2) \<Rightarrow>
               (Inr True,
                emit [CreateCapacityReservation instance_type availability_zone,
                      CancelCapacityReservation reservation_id, LogInfo ''AVAILABLE'']
                  (st\<lparr>prov := p2\<rparr>))))"

text \<open>\<^verbatim>\<open>enable_eventbridge_rule\<close>: any exception is logged and swallowed.\<close>

definition enable_eventbridge_rule :: "scheduler \<Rightarrow> scheduler \<times> event list" where
  "enable_eventbridge_rule s =
     (case get_schedule_error s of
        Some e \<Rightarrow> (s, [GetSchedule])
      | None \<Rightarrow>
          if schedule_state s \<noteq> ''ENABLED'' then
            (case update_schedule_error s of
               Some e \<Rightarrow> (s, [GetSchedule, UpdateSchedule ''ENABLED''])
             | None \<Rightarrow>
                 (s\<lparr>schedule_state := ''ENABLED''\<rparr>,
                  [GetSchedule, UpdateSchedule ''ENABLED'',
                   Notify ''EventBridge Scheduler Enabled'']))
          else (s, [GetSchedule]))"








datatype up_response =
    Success string string string
  | NoCapacity
  | InternalError string

fun up_statusCode :: "up_response \<Rightarrow> nat" where
  "up_statusCode (Success _ _ _) = 200"
| "up_statusCode NoCapacity = 503"
| "up_statusCode (InternalError _) = 500"



section \<open>The specification's words, for comparison\<close>



text \<open>
  The two averages the specification tells apart, in the arithmetic of the handler: the mean
  of all samples taken together, and the mean of the means of each instance's samples.
\<close>

definition flat_mean :: "float_arith \<Rightarrow> metric_result list \<Rightarrow> real" where
  "flat_mean fa results =
     float_div fa (float_sum fa (concat (map Values results)))
       (length (concat (map Values results)))"

definition mean_of_instance_means :: "float_arith \<Rightarrow> metric_result list \<Rightarrow> real" where
  "mean_of_instance_means fa results =
     (let sampled = filter (\<lambda>r. Values r \<noteq> []) results
      in float_div fa
           (float_sum fa (map (\<lambda>r. float_div fa (float_sum fa (Values r)) (length (Values r)))
                            sampled))
           (length sampled))"

section \<open>Example worlds\<close>

text \<open>
  The arithmetic that never rounds. IEEE-754 operations return the exact result whenever it
  is representable, so binary64 arithmetic agrees with it on the samples of the example
  worlds, whose sums and quotients are small integers.
\<close>

definition exact_arith :: float_arith where
  "exact_arith = \<lparr>float_sum = sum_list, float_div = (\<lambda>x n. x / real n)\<rparr>"

definition owned_tags :: "(string \<times> string) list" where
  "owned_tags =
     [(''ManagedBy'', ''aurora-autoscaler''), (''AutoScaler'', ''lambda-managed''),
      (''CreatedBy'', ''aurora-autoscale-up-lambda''), (''Purpose'', ''auto-scaling-reader'')]"

definition inst_r1 :: db_instance where
  "inst_r1 = \<lparr>DBInstanceIdentifier = ''lambda-aurora-reader-1'', DBInstanceStatus = ''available'',
     InstanceCreateTime = Some 100, DBInstanceArn = ''arn:r1'',
     DBClusterIdentifier = Some ''prod'', AvailabilityZone = Some ''a'',
     IsClusterWriter = Some False\<rparr>"

definition enabled_scheduler :: scheduler where
  "enabled_scheduler =
     \<lparr>get_schedule_error = None, schedule_state = ''ENABLED'', update_schedule_error = None\<rparr>"

definition world_tags :: world where
  "world_tags = \<lparr>describe_db_clusters = Inr [],
     get_metric_data = (\<lambda>_. Inr []),
     describe_db_instances = Inr [inst_r1],
     describe_db_instance = (\<lambda>i.
        if i = ''lambda-aurora-reader-1'' then Inr [inst_r1]
        else if i = ''gone'' then Inr []
        else if i = ''manual'' then Inr [inst_r1\<lparr>DBInstanceArn := ''arn:manual''\<rparr>]
        else if i = ''untaggable'' then Inr [inst_r1\<lparr>DBInstanceArn := ''arn:denied''\<rparr>]
        else Inl (ClientError ''DBInstanceNotFound'')),
     list_tags_for_resource = (\<lambda>a.
        if a = ''arn:r1'' then Inr owned_tags
        else if a = ''arn:manual'' then Inr [(''ManagedBy'', ''aurora-autoscaler'')]
        else Inl (ClientError ''AccessDenied'')),
     delete_db_instance = (\<lambda>_. None),
     sched = enabled_scheduler\<rparr>"

definition uneven_results :: "metric_result list" where
  "uneven_results =
     [\<lparr>ResultIndex = Some 0, Values = [2, 2, 2]\<rparr>, \<lparr>ResultIndex = Some 1, Values = [10]\<rparr>]"

definition cfg0 :: up_config where
  "cfg0 = \<lparr>DB_CLUSTER_ID = Some ''prod'', PREFERRED_INSTANCE_TYPE = ''P'',
     INSTANCE_TYPES_PRIORITY = [''X'', ''Y''], AVAILABILITY_ZONES = [''a'', ''b'', ''c''],
     FALLBACK_STRATEGY = ''instance-priority''\<rparr>"

definition writer_member :: db_cluster_member where
  "writer_member = \<lparr>MemberIdentifier = ''writer-1'', MemberIsClusterWriter = True\<rparr>"

definition world_idle :: world where
  "world_idle = world_tags\<lparr>describe_db_clusters := Inr [\<lparr>DBClusterMembers = [writer_member]\<rparr>]\<rparr>"

definition world_busy :: world where
  "world_busy = world_tags\<lparr>
     describe_db_clusters := Inr [\<lparr>DBClusterMembers =
        [writer_member,
         \<lparr>MemberIdentifier = ''lambda-aurora-reader-1'', MemberIsClusterWriter = False\<rparr>]\<rparr>],
     get_metric_data := (\<lambda>_. Inr [\<lparr>ResultIndex = Some 0, Values = [50, 70]\<rparr>])\<rparr>"

definition inst_w2 :: db_instance where
  "inst_w2 = \<lparr>DBInstanceIdentifier = ''lambda-aurora-reader-2'', DBInstanceStatus = ''available'',
     InstanceCreateTime = Some 200, DBInstanceArn = ''arn:r2'',
     DBClusterIdentifier = Some ''prod'', AvailabilityZone = Some ''b'',
     IsClusterWriter = Some True\<rparr>"

definition failover_cluster :: db_cluster where
  "failover_cluster = \<lparr>DBClusterMembers =
     [\<lparr>MemberIdentifier = ''lambda-aurora-reader-2'', MemberIsClusterWriter = True\<rparr>,
      \<lparr>MemberIdentifier = ''lambda-aurora-reader-1'', MemberIsClusterWriter = False\<rparr>]\<rparr>"

definition world_failover :: world where
  "world_failover = \<lparr>describe_db_clusters = Inr [failover_cluster],
     get_metric_data = (\<lambda>_. Inr [\<lparr>ResultIndex = Some 0, Values = [1, 2]\<rparr>]),
     describe_db_instances = Inr [inst_r1, inst_w2],
     describe_db_instance = (\<lambda>i.
        if i = ''lambda-aurora-reader-1'' then Inr [inst_r1]
        else if i = ''lambda-aurora-reader-2'' then Inr [inst_w2]
        else Inl (ClientError ''DBInstanceNotFound'')),
     list_tags_for_resource = (\<lambda>a.
        if a = ''arn:r1'' \<or> a = ''arn:r2'' then Inr owned_tags
        else Inl (ClientError ''AccessDenied'')),
     delete_db_instance = (\<lambda>_. None),
     sched = enabled_scheduler\<rparr>"


definition fleet_201 :: "db_instance list" where
  "fleet_201 =
     [inst_r1,
      inst_r1\<lparr>DBInstanceIdentifier := ''lambda-aurora-reader-2'', DBInstanceArn := ''arn:r2''\<rparr>,
      inst_r1\<lparr>DBInstanceIdentifier := ''lambda-aurora-reader-3'', DBInstanceArn := ''arn:r3'',
              AvailabilityZone := Some ''c''\<rparr>]"

definition fixed_provider :: "(error + string) \<Rightarrow> unit provider" where
  "fixed_provider outcome =
     \<lparr>rds_describe_db_instances = (\<lambda>_. Inr fleet_201),
      ec2_create_capacity_reservation = (\<lambda>p t az. (outcome, p)),
      ec2_cancel_capacity_reservation = (\<lambda>p r. (None, p)),
      rds_create_db_instance = (\<lambda>p t az. (Inr ''lambda-aurora-reader-new'', p))\<rparr>"

definition provider_none :: "unit provider" where
  "provider_none = fixed_provider (Inl (ClientError ''InsufficientInstanceCapacity''))"

definition provider_denied :: "unit provider" where
  "provider_denied = fixed_provider (Inl (ClientError ''UnauthorizedOperation''))"

definition provider_down :: "unit provider" where
  "provider_down = fixed_provider (Inl (OtherException ''EndpointConnectionError''))"

definition provider_ok :: "unit provider" where
  "provider_ok = fixed_provider (Inr ''cr-1'')"

definition st0 :: "unit up_state" where
  "st0 = \<lparr>prov = (), up_sched = enabled_scheduler, trace = []\<rparr>"


section \<open>Properties of the ownership verifier\<close>

lemma dict_get_dict_set:
  "dict_get (dict_set k v d) k' = (if k' = k then Some v else dict_get d k')"
  by (induction d) (auto simp: dict_get_def)

lemma missing_tags_empty_iff:
  "missing_tags d = [] \<longleftrightarrow>
     (dict_get d ''ManagedBy'' = Some ''aurora-autoscaler'' \<and>
      dict_get d ''AutoScaler'' = Some ''lambda-managed'')"
  by (simp add: missing_tags_def REQUIRED_TAGS_FOR_DELETION_def)

lemma missing_tags_empty_all:
  "missing_tags d = [] \<longleftrightarrow>
     (\<forall>(k, v) \<in> set REQUIRED_TAGS_FOR_DELETION. dict_get d k = Some v)"
  by (auto simp: missing_tags_def filter_empty_conv)

text \<open>
  Claim C3. The ownership verifier answers \<open>True\<close> exactly when the instance lookup returns
  an instance, the tag lookup for its ARN returns a tag list, and every required key has
  exactly the required value in the instance's tags. Consequently it answers \<open>False\<close> when
  the lookup raises, when no instance is found, when the tag lookup raises, and when any
  single required tag is missing or has another value.
\<close>

theorem is_lambda_managed_instance_fail_closed:
  "(is_lambda_managed_instance w i \<longleftrightarrow>
      (\<exists>inst rest tag_list.
          describe_db_instance w i = Inr (inst # rest) \<and>
          list_tags_for_resource w (DBInstanceArn inst) = Inr tag_list \<and>
          (\<forall>(k, v) \<in> set REQUIRED_TAGS_FOR_DELETION.
              dict_get (tags_dict tag_list) k = Some v)))
   \<and> (describe_db_instance w i = Inl e \<longrightarrow> \<not> is_lambda_managed_instance w i)
   \<and> (describe_db_instance w i = Inr [] \<longrightarrow> \<not> is_lambda_managed_instance w i)
   \<and> (describe_db_instance w i = Inr (inst # rest) \<and>
        list_tags_for_resource w (DBInstanceArn inst) = Inl e
        \<longrightarrow> \<not> is_lambda_managed_instance w i)
   \<and> (describe_db_instance w i = Inr (inst # rest) \<and>
        list_tags_for_resource w (DBInstanceArn inst) = Inr tag_list \<and>
        (k, v) \<in> set REQUIRED_TAGS_FOR_DELETION \<and>
        dict_get (tags_dict tag_list) k \<noteq> Some v
        \<longrightarrow> \<not> is_lambda_managed_instance w i)"
proof -
  have main: "is_lambda_managed_instance w i \<longleftrightarrow>
      (\<exists>inst rest tag_list.
          describe_db_instance w i = Inr (inst # rest) \<and>
          list_tags_for_resource w (DBInstanceArn inst) = Inr tag_list \<and>
          (\<forall>(k, v) \<in> set REQUIRED_TAGS_FOR_DELETION.
              dict_get (tags_dict tag_list) k = Some v))"
    unfolding is_lambda_managed_instance_def missing_tags_empty_all [symmetric]
    by (auto split: sum.splits list.splits)
  have e1: "describe_db_instance w i = Inl e \<longrightarrow> \<not> is_lambda_managed_instance w i"
    by (simp add: is_lambda_managed_instance_def)
  have e2: "describe_db_instance w i = Inr [] \<longrightarrow> \<not> is_lambda_managed_instance w i"
    by (simp add: is_lambda_managed_instance_def)
  have e3: "describe_db_instance w i = Inr (inst # rest) \<and>
        list_tags_for_resource w (DBInstanceArn inst) = Inl e
        \<longrightarrow> \<not> is_lambda_managed_instance w i"
    by (simp add: is_lambda_managed_instance_def)
  have e4: "describe_db_instance w i = Inr (inst # rest) \<and>
        list_tags_for_resource w (DBInstanceArn inst) = Inr tag_list \<and>
        (k, v) \<in> set REQUIRED_TAGS_FOR_DELETION \<and>
        dict_get (tags_dict tag_list) k \<noteq> Some v
        \<longrightarrow> \<not> is_lambda_managed_instance w i"
    using main by auto
  from main e1 e2 e3 e4 show ?thesis by blast
qed

theorem is_lambda_managed_instance_fail_closed_witness:
  "is_lambda_managed_instance world_tags ''lambda-aurora-reader-1''
   \<and> \<not> is_lambda_managed_instance world_tags ''unknown''
   \<and> \<not> is_lambda_managed_instance world_tags ''gone''
   \<and> \<not> is_lambda_managed_instance world_tags ''untaggable''
   \<and> \<not> is_lambda_managed_instance world_tags ''manual''"
proof -
  have d1: "describe_db_instance world_tags ''lambda-aurora-reader-1'' = Inr (inst_r1 # [])"
    by (simp add: world_tags_def)
  have t1: "list_tags_for_resource world_tags (DBInstanceArn inst_r1) = Inr owned_tags"
    by (simp add: world_tags_def inst_r1_def)
  have a1: "\<forall>(k, v) \<in> set REQUIRED_TAGS_FOR_DELETION. dict_get (tags_dict owned_tags) k = Some v"
    by (simp add: REQUIRED_TAGS_FOR_DELETION_def tags_dict_def owned_tags_def dict_get_def)
  have p1: "is_lambda_managed_instance world_tags ''lambda-aurora-reader-1''"
    using is_lambda_managed_instance_fail_closed [of world_tags "''lambda-aurora-reader-1''"] d1 t1 a1
    by blast
  have d2: "describe_db_instance world_tags ''unknown'' = Inl (ClientError ''DBInstanceNotFound'')"
    by (simp add: world_tags_def)
  have p2: "\<not> is_lambda_managed_instance world_tags ''unknown''"
    using is_lambda_managed_instance_fail_closed
      [of world_tags "''unknown''" "ClientError ''DBInstanceNotFound''"] d2
    by blast
  have d3: "describe_db_instance world_tags ''gone'' = Inr []"
    by (simp add: world_tags_def)
  have p3: "\<not> is_lambda_managed_instance world_tags ''gone''"
    using is_lambda_managed_instance_fail_closed [of world_tags "''gone''"] d3 by blast
  have d4: "describe_db_instance world_tags ''untaggable''
              = Inr (inst_r1\<lparr>DBInstanceArn := ''arn:denied''\<rparr> # [])"
    by (simp add: world_tags_def)
  have t4: "list_tags_for_resource world_tags (DBInstanceArn (inst_r1\<lparr>DBInstanceArn := ''arn:denied''\<rparr>))
              = Inl (ClientError ''AccessDenied'')"
    by (simp add: world_tags_def)
  have p4: "\<not> is_lambda_managed_instance world_tags ''untaggable''"
    using is_lambda_managed_instance_fail_closed
      [of world_tags "''untaggable''" "ClientError ''AccessDenied''"
          "inst_r1\<lparr>DBInstanceArn := ''arn:denied''\<rparr>" "[]"] d4 t4
    by blast
  have d5: "describe_db_instance world_tags ''manual''
              = Inr (inst_r1\<lparr>DBInstanceArn := ''arn:manual''\<rparr> # [])"
    by (simp add: world_tags_def)
  have t5: "list_tags_for_resource world_tags (DBInstanceArn (inst_r1\<lparr>DBInstanceArn := ''arn:manual''\<rparr>))
              = Inr [(''ManagedBy'', ''aurora-autoscaler'')]"
    by (simp add: world_tags_def)
  have m5: "(''AutoScaler'', ''lambda-managed'') \<in> set REQUIRED_TAGS_FOR_DELETION"
    by (simp add: REQUIRED_TAGS_FOR_DELETION_def)
  have n5: "dict_get (tags_dict [(''ManagedBy'', ''aurora-autoscaler'')]) ''AutoScaler''
              \<noteq> Some ''lambda-managed''"
    by (simp add: tags_dict_def dict_get_def)
  have p5: "\<not> is_lambda_managed_instance world_tags ''manual''"
    using is_lambda_managed_instance_fail_closed
      [of world_tags "''manual''" _ "inst_r1\<lparr>DBInstanceArn := ''arn:manual''\<rparr>" "[]"
          "[(''ManagedBy'', ''aurora-autoscaler'')]" "''AutoScaler''" "''lambda-managed''"]
      d5 t5 m5 n5
    by blast
  from p1 p2 p3 p4 p5 show ?thesis by blast
qed

section \<open>Properties of the metric aggregation\<close>

lemma process_metrics_acc:
  "process_metrics readers results acc = Inr vals \<Longrightarrow> vals = acc @ concat (map Values results)"
proof (induction results arbitrary: acc)
  case Nil
  then show ?case by simp
next
  case (Cons r rs)
  show ?case
  proof (cases "Values r = []")
    case True
    with Cons show ?thesis by simp
  next
    case False
    with Cons.prems have "process_metrics readers rs (acc @ Values r) = Inr vals"
      by (simp split: sum.splits)
    from Cons.IH [OF this] show ?thesis by simp
  qed
qed

lemma process_metrics_total:
  "\<forall>r \<in> set results. Values r \<noteq> [] \<longrightarrow> (\<exists>x. reader_of_result readers (ResultIndex r) = Inr x)
   \<Longrightarrow> process_metrics readers results acc = Inr (acc @ concat (map Values results))"
  by (induction results arbitrary: acc) auto

lemma avg_cpu_flat_mean: "avg_cpu fa (concat (map Values results)) = flat_mean fa results"
  by (simp add: avg_cpu_def flat_mean_def)

text \<open>
  Claim C6. Whenever the loop over the telemetry results finishes, the collection it has
  built is the flat concatenation of all raw samples of all results, and the average the
  handler computes is the mean of that flat collection, taken with the handler's own sum and
  division (whatever their rounding); the loop does finish when every result that has
  samples carries an index of a reader. The handler's decision compares this flat mean with
  the threshold. With three samples of 2 for one reader and one sample of 10 for another,
  and an arithmetic that is exact on the eight sums and quotients involved (as binary64
  arithmetic is: all of them are small integers), the computed value is the flat mean 4,
  and the mean of the per-instance means is 6.
\<close>

theorem pool_average_is_flat_mean:
  "(process_metrics readers results [] = Inr vals \<longrightarrow>
      vals = concat (map Values results) \<and> avg_cpu fa vals = flat_mean fa results)
   \<and> ((\<forall>r \<in> set results. Values r \<noteq> [] \<longrightarrow>
          (\<exists>x. reader_of_result readers (ResultIndex r) = Inr x)) \<longrightarrow>
        process_metrics readers results [] = Inr (concat (map Values results)))
   \<and> (get_metric_data w readers = Inr results \<and>
        process_metrics readers results [] = Inr vals \<and> vals \<noteq> [] \<longrightarrow>
        metrics_step fa CPU_THRESHOLD w readers =
          (if flat_mean fa results \<ge> CPU_THRESHOLD
           then reconciled_exit ''Aurora Auto-Scaler: No Action'' 200
                  ''CPU above threshold, no action needed'' [] [] w
           else select_step w))
   \<and> process_metrics [''r1'', ''r2''] uneven_results [] = Inr [2, 2, 2, 10]
   \<and> (float_sum fa [2, 2, 2, 10] = 16 \<and> float_div fa 16 4 = 4 \<and>
        float_sum fa [2, 2, 2] = 6 \<and> float_div fa 6 3 = 2 \<and>
        float_sum fa [10] = 10 \<and> float_div fa 10 1 = 10 \<and>
        float_sum fa [2, 10] = 12 \<and> float_div fa 12 2 = 6 \<longrightarrow>
        avg_cpu fa [2, 2, 2, 10] = 4 \<and> flat_mean fa uneven_results = 4 \<and>
        mean_of_instance_means fa uneven_results = 6)"
proof -
  have a: "process_metrics readers results [] = Inr vals \<longrightarrow>
      vals = concat (map Values results) \<and> avg_cpu fa vals = flat_mean fa results"
    using process_metrics_acc [of readers results "[]" vals] avg_cpu_flat_mean by auto
  have b: "(\<forall>r \<in> set results. Values r \<noteq> [] \<longrightarrow>
          (\<exists>x. reader_of_result readers (ResultIndex r) = Inr x)) \<longrightarrow>
        process_metrics readers results [] = Inr (concat (map Values results))"
    using process_metrics_total [of results readers "[]"] by simp
  have c: "get_metric_data w readers = Inr results \<and>
        process_metrics readers results [] = Inr vals \<and> vals \<noteq> [] \<longrightarrow>
        metrics_step fa CPU_THRESHOLD w readers =
          (if flat_mean fa results \<ge> CPU_THRESHOLD
           then reconciled_exit ''Aurora Auto-Scaler: No Action'' 200
                  ''CPU above threshold, no action needed'' [] [] w
           else select_step w)"
    using a by (simp add: metrics_step_def)
  have d: "process_metrics [''r1'', ''r2''] uneven_results [] = Inr [2, 2, 2, 10]"
    by (simp add: uneven_results_def reader_of_result_def)
  have e: "float_sum fa [2, 2, 2, 10] = 16 \<and> float_div fa 16 4 = 4 \<and>
        float_sum fa [2, 2, 2] = 6 \<and> float_div fa 6 3 = 2 \<and>
        float_sum fa [10] = 10 \<and> float_div fa 10 1 = 10 \<and>
        float_sum fa [2, 10] = 12 \<and> float_div fa 12 2 = 6 \<longrightarrow>
        avg_cpu fa [2, 2, 2, 10] = 4 \<and> flat_mean fa uneven_results = 4 \<and>
        mean_of_instance_means fa uneven_results = 6"
    by (simp add: avg_cpu_def flat_mean_def mean_of_instance_means_def uneven_results_def
        eval_nat_numeral)
  from a b c d e show ?thesis by blast
qed

theorem pool_average_is_flat_mean_witness:
  "process_metrics [''r1'', ''r2''] uneven_results [] = Inr [2, 2, 2, 10]
   \<and> [2, 2, 2, 10] = concat (map Values uneven_results)
   \<and> avg_cpu exact_arith [2, 2, 2, 10] = flat_mean exact_arith uneven_results
   \<and> avg_cpu exact_arith [2, 2, 2, 10] = 4
   \<and> mean_of_instance_means exact_arith uneven_results = 6"
proof -
  have h: "process_metrics [''r1'', ''r2''] uneven_results [] = Inr [2, 2, 2, 10]"
    by (simp add: uneven_results_def reader_of_result_def)
  have x: "float_sum exact_arith [2, 2, 2, 10] = 16 \<and> float_div exact_arith 16 4 = 4 \<and>
        float_sum exact_arith [2, 2, 2] = 6 \<and> float_div exact_arith 6 3 = 2 \<and>
        float_sum exact_arith [10] = 10 \<and> float_div exact_arith 10 1 = 10 \<and>
        float_sum exact_arith [2, 10] = 12 \<and> float_div exact_arith 12 2 = 6"
    by (simp add: exact_arith_def)
  from h x pool_average_is_flat_mean
    [of "[''r1'', ''r2'']" uneven_results "[2, 2, 2, 10]" exact_arith]
  show ?thesis by blast
qed

section \<open>Properties of the distribution analyzer\<close>

text \<open>
  Claim C7, at the input where the code departs from it. A reader of the target cluster in
  a configured zone whose status is \<^verbatim>\<open>insufficient-capacity\<close> is counted: the status list
  of the source holds \<^verbatim>\<open>insufficient activity\<close>, which is not a status the claim names.
\<close>

theorem insufficient_capacity_reader_is_counted:
  "get_aurora_readers_per_az cfg0
     (Inr [inst_r1\<lparr>DBInstanceStatus := ''insufficient-capacity''\<rparr>])
   = Inr [(''a'', 1), (''b'', 0), (''c'', 0)]"
  by (simp add: get_aurora_readers_per_az_def cfg0_def inst_r1_def initial_readers_per_az_def
      count_instance_def counted_reader_def dict_get_def)

section \<open>Properties of the scale-down handler\<close>

lemma reconcile_calls_append: "reconcile_calls (xs @ ys) = reconcile_calls xs @ reconcile_calls ys"
  by (induction xs rule: reconcile_calls.induct) auto

lemma deleted_ids_append: "deleted_ids (xs @ ys) = deleted_ids xs @ deleted_ids ys"
  by (induction xs rule: deleted_ids.induct) auto

lemma schedule_error_events_quiet:
  "reconcile_calls (schedule_error_events e) = [] \<and> deleted_ids (schedule_error_events e) = []"
  by (cases e) (simp_all add: schedule_error_events_def)

lemma disable_schedule_quiet:
  "reconcile_calls (snd (disable_schedule w)) = [] \<and> deleted_ids (snd (disable_schedule w)) = []"
  by (simp add: disable_schedule_def schedule_error_events_quiet split: option.splits)

lemma check_reconcile_calls:
  "reconcile_calls (snd (check_and_disable_eventbridge w s)) = [s]"
  "deleted_ids (snd (check_and_disable_eventbridge w s)) = []"
  using disable_schedule_quiet [of w]
  by (auto simp: check_and_disable_eventbridge_def split: prod.splits)

lemma reconciled_exit_calls:
  "reconciled_exit subj code msg snap insts w = (resp, insts', w', ev) \<Longrightarrow>
     reconcile_calls ev = [snap] \<and> deleted_ids ev = [] \<and> statusCode resp = code \<and> insts' = insts"
  using check_reconcile_calls [of w snap]
  by (auto simp: reconciled_exit_def split: prod.splits)

lemma fail_exit_calls:
  "fail_exit subj msg insts w = (resp, insts', w', ev) \<Longrightarrow>
     reconcile_calls ev = [] \<and> deleted_ids ev = [] \<and> statusCode resp = 500 \<and> insts' = insts"
  by (auto simp: fail_exit_def)

lemma exit_ok_fail: "exit_ok (fail_exit subj msg insts w)"
  by (simp add: exit_ok_def fail_exit_def)

lemma exit_ok_reconciled: "code \<in> {200, 403} \<Longrightarrow> exit_ok (reconciled_exit subj code msg snap insts w)"
  using check_reconcile_calls [of w snap]
  by (auto simp: exit_ok_def reconciled_exit_def split: prod.splits)

lemma exit_ok_delete: "exit_ok (delete_step w insts lrs)"
  using exit_ok_reconciled [of 403]
  by (auto simp: delete_step_def Let_def exit_ok_def split: option.splits)

lemma exit_ok_select: "exit_ok (select_step w)"
  using exit_ok_reconciled [of 200] exit_ok_fail exit_ok_delete
  by (auto simp: select_step_def Let_def split: sum.splits)

lemma exit_ok_metrics: "exit_ok (metrics_step fa thr w readers)"
  using exit_ok_reconciled [of 200] exit_ok_fail exit_ok_select
  by (auto simp: metrics_step_def Let_def split: sum.splits)

lemma exit_ok_try: "exit_ok (handler_try fa thr w)"
  using exit_ok_reconciled [of 200] exit_ok_fail exit_ok_metrics
  by (auto simp: handler_try_def Let_def split: sum.splits list.splits)

lemma handler_reconcile_count:
  assumes "lambda_handler fa thr w = (resp, w', ev)"
  shows "length (reconcile_calls ev) = (if statusCode resp = 500 \<or> deleted_ids ev \<noteq> [] then 1 else 2)"
proof -
  obtain insts w1 ev1 where t: "handler_try fa thr w = (resp, insts, w1, ev1)"
    using assms by (auto simp: lambda_handler_def split: prod.splits)
  obtain ev2 where c: "check_and_disable_eventbridge w1 insts = (w', ev2)" and e: "ev = ev1 @ ev2"
    using assms t by (auto simp: lambda_handler_def split: prod.splits)
  have r2: "reconcile_calls ev2 = [insts]" and d2: "deleted_ids ev2 = []"
    using check_reconcile_calls [of w1 insts] c by simp_all
  from exit_ok_try [of fa thr w] t
  have "length (reconcile_calls ev1) = (if statusCode resp = 500 \<or> deleted_ids ev1 \<noteq> [] then 0 else 1)"
    by (simp add: exit_ok_def)
  with r2 d2 e show ?thesis
    by (simp add: reconcile_calls_append deleted_ids_append)
qed

lemmas ev_defs = lambda_handler_def handler_try_def metrics_step_def select_step_def delete_step_def
  reconciled_exit_def fail_exit_def check_and_disable_eventbridge_def tagged_lambda_instances_def
  lambda_instances_of_def disable_schedule_def cluster_readers_def is_lambda_managed_instance_def
  missing_tags_def tags_dict_def dict_get_def REQUIRED_TAGS_FOR_DELETION_def owned_tags_def
  is_lambda_name_def lambda_readers_of_def latest_reader_def avg_cpu_def exact_arith_def reader_of_result_def
  enabled_scheduler_def schedule_error_events_def

lemma idle_run:
  "lambda_handler exact_arith 10 world_idle =
     (\<lparr>statusCode = 200, body = ''No readers to evaluate''\<rparr>,
      world_idle\<lparr>sched := enabled_scheduler\<lparr>schedule_state := ''DISABLED''\<rparr>\<rparr>,
      [Notify ''Aurora Auto-Scaler: Skipped'', Reconcile [], GetSchedule, UpdateSchedule ''DISABLED'',
       Notify ''Aurora Auto-Scaler: Schedule Disabled'', Reconcile [], GetSchedule])"
  by (simp add: ev_defs world_idle_def world_tags_def writer_member_def)

lemma failover_latest:
  "latest_reader (lambda_readers_of [inst_r1, inst_w2]) = inst_w2"
  by (simp add: latest_reader_def lambda_readers_of_def is_lambda_name_def inst_r1_def inst_w2_def)

lemma failover_managed:
  "is_lambda_managed_instance world_failover ''lambda-aurora-reader-2''"
  "is_lambda_managed_instance world_failover ''lambda-aurora-reader-1''"
  by (simp_all add: is_lambda_managed_instance_def world_failover_def inst_w2_def inst_r1_def
      missing_tags_def tags_dict_def dict_get_def REQUIRED_TAGS_FOR_DELETION_def owned_tags_def)

lemma failover_readers_nonempty: "lambda_readers_of [inst_r1, inst_w2] \<noteq> []"
  by (simp add: lambda_readers_of_def is_lambda_name_def inst_r1_def)

lemma failover_try:
  "handler_try exact_arith 10 world_failover =
     (\<lparr>statusCode = 200, body = ''Successfully deleted lambda-aurora-reader-2''\<rparr>,
      [inst_r1, inst_w2], world_failover,
      [DeleteDBInstance ''lambda-aurora-reader-2'', Notify ''Aurora Auto-Scaler: Successful Deletion''])"
proof -
  have c: "describe_db_clusters world_failover = Inr [failover_cluster]"
    and i: "describe_db_instances world_failover = Inr [inst_r1, inst_w2]"
    and m: "get_metric_data world_failover [''lambda-aurora-reader-1'']
              = Inr [\<lparr>ResultIndex = Some 0, Values = [1, 2]\<rparr>]"
    and d: "delete_db_instance world_failover ''lambda-aurora-reader-2'' = None"
    by (simp_all add: world_failover_def)
  have r: "cluster_readers failover_cluster = [''lambda-aurora-reader-1'']"
    by (simp add: cluster_readers_def failover_cluster_def)
  have id: "DBInstanceIdentifier inst_w2 = ''lambda-aurora-reader-2''"
    by (simp add: inst_w2_def)
  have del: "delete_step world_failover [inst_r1, inst_w2] (lambda_readers_of [inst_r1, inst_w2]) =
     (\<lparr>statusCode = 200, body = ''Successfully deleted lambda-aurora-reader-2''\<rparr>,
      [inst_r1, inst_w2], world_failover,
      [DeleteDBInstance ''lambda-aurora-reader-2'', Notify ''Aurora Auto-Scaler: Successful Deletion''])"
    by (simp add: delete_step_def Let_def failover_latest id failover_managed d)
  have sel: "select_step world_failover = delete_step world_failover [inst_r1, inst_w2] (lambda_readers_of [inst_r1, inst_w2])"
    by (simp add: select_step_def i failover_readers_nonempty)
  have met: "metrics_step exact_arith 10 world_failover [''lambda-aurora-reader-1''] = select_step world_failover"
    by (simp add: metrics_step_def m reader_of_result_def avg_cpu_def exact_arith_def)
  show ?thesis
    by (simp add: handler_try_def c r met sel del)
qed

lemma failover_run:
  "lambda_handler exact_arith 10 world_failover =
     (\<lparr>statusCode = 200, body = ''Successfully deleted lambda-aurora-reader-2''\<rparr>,
      world_failover,
      [DeleteDBInstance ''lambda-aurora-reader-2'', Notify ''Aurora Auto-Scaler: Successful Deletion'',
       Reconcile [inst_r1, inst_w2]])"
proof -
  have "tagged_lambda_instances world_failover [inst_r1, inst_w2] \<noteq> []"
    by (simp add: tagged_lambda_instances_def lambda_instances_of_def is_lambda_name_def
        failover_managed inst_r1_def)
  then show ?thesis
    by (simp add: lambda_handler_def failover_try check_and_disable_eventbridge_def)
qed

text \<open>
  Claim C1, at the input where the code departs from it. After a failover the cluster's
  writer is an instance the controller created: it carries the naming prefix, is
  \<^verbatim>\<open>available\<close>, reports the latest creation time and has the ownership tags. The handler
  keeps it out of the metric query, and then selects and deletes it.
\<close>

theorem writer_selected_for_deletion:
  "describe_db_clusters world_failover = Inr [failover_cluster]
   \<and> \<lparr>MemberIdentifier = ''lambda-aurora-reader-2'', MemberIsClusterWriter = True\<rparr>
        \<in> set (DBClusterMembers failover_cluster)
   \<and> ''lambda-aurora-reader-2'' \<notin> set (cluster_readers failover_cluster)
   \<and> describe_db_instances world_failover = Inr [inst_r1, inst_w2]
   \<and> IsClusterWriter inst_w2 = Some True
   \<and> latest_reader (lambda_readers_of [inst_r1, inst_w2]) = inst_w2
   \<and> DBInstanceIdentifier inst_w2 = ''lambda-aurora-reader-2''
   \<and> statusCode (fst (lambda_handler exact_arith 10 world_failover)) = 200
   \<and> deleted_ids (snd (snd (lambda_handler exact_arith 10 world_failover))) = [''lambda-aurora-reader-2'']"
proof -
  have "describe_db_clusters world_failover = Inr [failover_cluster]"
    "describe_db_instances world_failover = Inr [inst_r1, inst_w2]"
    by (simp_all add: world_failover_def)
  moreover have "\<lparr>MemberIdentifier = ''lambda-aurora-reader-2'', MemberIsClusterWriter = True\<rparr>
        \<in> set (DBClusterMembers failover_cluster)"
    "''lambda-aurora-reader-2'' \<notin> set (cluster_readers failover_cluster)"
    by (simp_all add: failover_cluster_def cluster_readers_def)
  moreover have "IsClusterWriter inst_w2 = Some True"
    "DBInstanceIdentifier inst_w2 = ''lambda-aurora-reader-2''"
    by (simp_all add: inst_w2_def)
  moreover have "statusCode (fst (lambda_handler exact_arith 10 world_failover)) = 200"
    "deleted_ids (snd (snd (lambda_handler exact_arith 10 world_failover))) = [''lambda-aurora-reader-2'']"
    by (simp_all add: failover_run)
  ultimately show ?thesis using failover_latest by blast
qed

text \<open>
  Claim C2 fails where the handler returns from a no-op path: with no reader in the
  cluster, scheduler reconciliation runs twice, once before the \<^verbatim>\<open>return\<close> and once in the
  \<^verbatim>\<open>finally\<close> block.
\<close>

theorem reconciliation_twice_without_readers:
  "length (reconcile_calls (snd (snd (lambda_handler exact_arith 10 world_idle)))) = 2"
  by (simp add: idle_run)

text \<open>
  Claim C2 as amended. Scheduler reconciliation runs at least once in every invocation:
  exactly once when the handler answers 500 (an error exit) or has requested a deletion
  (the success exit), and exactly twice on every other exit (the no-op exits, status 200,
  and the blocked exit, status 403).
\<close>

theorem reconciliation_count:
  assumes "lambda_handler fa thr w = (resp, w', ev)"
  shows "length (reconcile_calls ev) =
           (if statusCode resp = 500 \<or> deleted_ids ev \<noteq> [] then 1 else 2)
         \<and> statusCode resp \<in> {200, 403, 500}"
proof -
  obtain insts w1 ev1 where t: "handler_try fa thr w = (resp, insts, w1, ev1)"
    using assms by (auto simp: lambda_handler_def split: prod.splits)
  from exit_ok_try [of fa thr w] t have "statusCode resp \<in> {200, 403, 500}"
    by (simp add: exit_ok_def)
  with handler_reconcile_count [OF assms] show ?thesis by simp
qed

theorem reconciliation_count_witness:
  "length (reconcile_calls
      [DeleteDBInstance ''lambda-aurora-reader-2'',
       Notify ''Aurora Auto-Scaler: Successful Deletion'', Reconcile [inst_r1, inst_w2]]) = 1
   \<and> length (reconcile_calls
      [Notify ''Aurora Auto-Scaler: Skipped'', Reconcile [], GetSchedule,
       UpdateSchedule ''DISABLED'', Notify ''Aurora Auto-Scaler: Schedule Disabled'',
       Reconcile [], GetSchedule]) = 2"
  using reconciliation_count [OF failover_run] reconciliation_count [OF idle_run]
  by simp

section \<open>Properties of scheduler reconciliation\<close>

lemma is_managed_sched [simp]:
  "is_lambda_managed_instance (w\<lparr>sched := x\<rparr>) i = is_lambda_managed_instance w i"
  by (simp add: is_lambda_managed_instance_def split: sum.splits list.splits)

lemma tagged_sched [simp]:
  "tagged_lambda_instances (w\<lparr>sched := x\<rparr>) s = tagged_lambda_instances w s"
  by (simp add: tagged_lambda_instances_def)

lemma tagged_member:
  "inst \<in> set (tagged_lambda_instances w s) \<longleftrightarrow>
     inst \<in> set s \<and> prefix ''lambda-aurora-reader'' (DBInstanceIdentifier inst) \<and>
     DBInstanceStatus inst \<noteq> ''deleting'' \<and>
     is_lambda_managed_instance w (DBInstanceIdentifier inst)"
  by (auto simp: tagged_lambda_instances_def lambda_instances_of_def is_lambda_name_def)

lemma schedule_error_events_no_sched:
  "GetSchedule \<notin> set (schedule_error_events e)" "UpdateSchedule x \<notin> set (schedule_error_events e)"
  by (cases e; simp add: schedule_error_events_def)+

lemma disable_schedule_get: "GetSchedule \<in> set (snd (disable_schedule w))"
  by (simp add: disable_schedule_def split: option.splits)

lemma disable_schedule_update:
  "UpdateSchedule x \<in> set (snd (disable_schedule w)) \<longleftrightarrow>
     x = ''DISABLED'' \<and> get_schedule_error (sched w) = None \<and> schedule_state (sched w) \<noteq> ''DISABLED''"
  by (auto simp: disable_schedule_def schedule_error_events_no_sched split: option.splits)

lemma disable_schedule_state:
  "schedule_state (sched (fst (disable_schedule w))) =
     (if get_schedule_error (sched w) = None \<and> update_schedule_error (sched w) = None
      then ''DISABLED'' else schedule_state (sched w))"
  by (auto simp: disable_schedule_def split: option.splits)

lemma disable_schedule_errors:
  "get_schedule_error (sched (fst (disable_schedule w))) = get_schedule_error (sched w)"
  "update_schedule_error (sched (fst (disable_schedule w))) = update_schedule_error (sched w)"
  by (auto simp: disable_schedule_def split: option.splits)

lemma disable_schedule_idem:
  "fst (disable_schedule (fst (disable_schedule w))) = fst (disable_schedule w)"
  by (auto simp: disable_schedule_def split: option.splits)

lemma disable_schedule_tagged [simp]:
  "tagged_lambda_instances (fst (disable_schedule w)) s = tagged_lambda_instances w s"
  by (auto simp: disable_schedule_def split: option.splits)

lemma check_fst:
  "fst (check_and_disable_eventbridge w s) =
     (if tagged_lambda_instances w s \<noteq> [] then w else fst (disable_schedule w))"
  by (simp add: check_and_disable_eventbridge_def split: prod.splits)

lemma check_snd:
  "snd (check_and_disable_eventbridge w s) =
     (if tagged_lambda_instances w s \<noteq> [] then [Reconcile s]
      else Reconcile s # snd (disable_schedule w))"
  by (simp add: check_and_disable_eventbridge_def split: prod.splits)

lemma enable_idem:
  "fst (enable_eventbridge_rule (fst (enable_eventbridge_rule s))) = fst (enable_eventbridge_rule s)"
  by (auto simp: enable_eventbridge_rule_def split: option.splits)

lemma enable_second_quiet:
  "update_schedule_error s = None \<Longrightarrow>
     UpdateSchedule x \<notin> set (snd (enable_eventbridge_rule (fst (enable_eventbridge_rule s))))"
  by (auto simp: enable_eventbridge_rule_def split: option.splits)

text \<open>
  Claim C9. Scheduler reconciliation takes its disabling branch (it reads the schedule) if
  and only if no verified-owned instance remains in the snapshot, where verified-owned means:
  in the snapshot, named with the controller's prefix, not in \<^verbatim>\<open>deleting\<close> status, and
  passing the ownership verifier. It issues the update to \<^verbatim>\<open>DISABLED\<close> exactly when, in
  addition, the schedule can be read and is not already \<^verbatim>\<open>DISABLED\<close>; with a scheduler that
  answers and a trigger that is not yet disabled, the trigger ends \<^verbatim>\<open>DISABLED\<close> if and only
  if no verified-owned instance remains, and with a verified-owned instance nothing changes.
  Disabling and enabling are idempotent: a second call leaves the state of the first, and
  issues no update once the first update has gone through.
\<close>

theorem scheduler_disabled_iff_no_owned:
  "(GetSchedule \<in> set (snd (check_and_disable_eventbridge w s)) \<longleftrightarrow>
      tagged_lambda_instances w s = [])
   \<and> (UpdateSchedule x \<in> set (snd (check_and_disable_eventbridge w s)) \<longleftrightarrow>
        x = ''DISABLED'' \<and> tagged_lambda_instances w s = [] \<and>
        get_schedule_error (sched w) = None \<and> schedule_state (sched w) \<noteq> ''DISABLED'')
   \<and> (get_schedule_error (sched w) = None \<and> update_schedule_error (sched w) = None \<and>
        schedule_state (sched w) \<noteq> ''DISABLED'' \<longrightarrow>
        (schedule_state (sched (fst (check_and_disable_eventbridge w s))) = ''DISABLED'' \<longleftrightarrow>
           tagged_lambda_instances w s = []))
   \<and> (tagged_lambda_instances w s \<noteq> [] \<longrightarrow> fst (check_and_disable_eventbridge w s) = w)
   \<and> (inst \<in> set (tagged_lambda_instances w s) \<longleftrightarrow>
        inst \<in> set s \<and> prefix ''lambda-aurora-reader'' (DBInstanceIdentifier inst) \<and>
        DBInstanceStatus inst \<noteq> ''deleting'' \<and>
        is_lambda_managed_instance w (DBInstanceIdentifier inst))
   \<and> fst (check_and_disable_eventbridge (fst (check_and_disable_eventbridge w s)) s)
        = fst (check_and_disable_eventbridge w s)
   \<and> (update_schedule_error (sched w) = None \<longrightarrow>
        UpdateSchedule x \<notin>
          set (snd (check_and_disable_eventbridge (fst (check_and_disable_eventbridge w s)) s)))
   \<and> fst (enable_eventbridge_rule (fst (enable_eventbridge_rule sc))) = fst (enable_eventbridge_rule sc)
   \<and> (update_schedule_error sc = None \<longrightarrow>
        UpdateSchedule x \<notin> set (snd (enable_eventbridge_rule (fst (enable_eventbridge_rule sc)))))"
proof -
  have a: "GetSchedule \<in> set (snd (check_and_disable_eventbridge w s)) \<longleftrightarrow>
      tagged_lambda_instances w s = []"
    by (simp add: check_snd disable_schedule_get)
  have b: "UpdateSchedule x \<in> set (snd (check_and_disable_eventbridge w s)) \<longleftrightarrow>
        x = ''DISABLED'' \<and> tagged_lambda_instances w s = [] \<and>
        get_schedule_error (sched w) = None \<and> schedule_state (sched w) \<noteq> ''DISABLED''"
    by (auto simp: check_snd disable_schedule_update)
  have c: "get_schedule_error (sched w) = None \<and> update_schedule_error (sched w) = None \<and>
        schedule_state (sched w) \<noteq> ''DISABLED'' \<longrightarrow>
        (schedule_state (sched (fst (check_and_disable_eventbridge w s))) = ''DISABLED'' \<longleftrightarrow>
           tagged_lambda_instances w s = [])"
    by (simp add: check_fst disable_schedule_state)
  have d: "tagged_lambda_instances w s \<noteq> [] \<longrightarrow> fst (check_and_disable_eventbridge w s) = w"
    by (simp add: check_fst)
  have e: "fst (check_and_disable_eventbridge (fst (check_and_disable_eventbridge w s)) s)
        = fst (check_and_disable_eventbridge w s)"
    by (simp add: check_fst disable_schedule_idem)
  have f: "update_schedule_error (sched w) = None \<longrightarrow>
        UpdateSchedule x \<notin>
          set (snd (check_and_disable_eventbridge (fst (check_and_disable_eventbridge w s)) s))"
    by (auto simp: check_fst check_snd disable_schedule_update disable_schedule_state
        disable_schedule_errors)
  from a b c d e f tagged_member [of inst w s] enable_idem [of sc] enable_second_quiet [of sc x]
  show ?thesis by blast
qed

lemma early_try:
  assumes "describe_db_clusters w = Inr (cluster # cs)"
    and "cluster_readers cluster = [] \<or>
         (\<exists>results vals. get_metric_data w (cluster_readers cluster) = Inr results \<and>
            process_metrics (cluster_readers cluster) results [] = Inr vals \<and>
            (vals = [] \<or> avg_cpu fa vals \<ge> thr))"
  shows "\<exists>subject msg. handler_try fa thr w = reconciled_exit subject 200 msg [] [] w"
proof (cases "cluster_readers cluster = []")
  case True
  with assms(1) have "handler_try fa thr w =
      reconciled_exit ''Aurora Auto-Scaler: Skipped'' 200 ''No readers to evaluate'' [] [] w"
    by (simp add: handler_try_def)
  then show ?thesis by blast
next
  case False
  with assms(2) obtain results vals
    where m: "get_metric_data w (cluster_readers cluster) = Inr results"
      and p: "process_metrics (cluster_readers cluster) results [] = Inr vals"
      and v: "vals = [] \<or> avg_cpu fa vals \<ge> thr"
    by blast
  from False assms(1) have h: "handler_try fa thr w = metrics_step fa thr w (cluster_readers cluster)"
    by (simp add: handler_try_def)
  show ?thesis
  proof (cases "vals = []")
    case True
    with m p h have "handler_try fa thr w =
        reconciled_exit ''Aurora Auto-Scaler: No Data'' 200 ''No CPU data available'' [] [] w"
      by (simp add: metrics_step_def)
    then show ?thesis by blast
  next
    case False
    with v m p h have "handler_try fa thr w =
        reconciled_exit ''Aurora Auto-Scaler: No Action'' 200
          ''CPU above threshold, no action needed'' [] [] w"
      by (simp add: metrics_step_def)
    then show ?thesis by blast
  qed
qed

lemma tagged_nil [simp]: "tagged_lambda_instances w [] = []"
  by (simp add: tagged_lambda_instances_def lambda_instances_of_def)

lemma early_handler:
  assumes "handler_try fa thr w = reconciled_exit subject 200 msg [] [] w"
  shows "lambda_handler fa thr w =
    (\<lparr>statusCode = 200, body = msg\<rparr>, fst (disable_schedule (fst (disable_schedule w))),
     Notify subject # Reconcile [] # snd (disable_schedule w) @
       Reconcile [] # snd (disable_schedule (fst (disable_schedule w))))"
  using assms
  by (simp add: lambda_handler_def reconciled_exit_def check_and_disable_eventbridge_def
      split: prod.splits)

text \<open>
  Claim C10. When the cluster has no reader members, or the telemetry loop returns no
  sample, or the pool average is at or above the threshold, the handler answers 200 without
  listing the fleet, every call of scheduler reconciliation (the explicit one and the one of
  the \<^verbatim>\<open>finally\<close> block) gets the empty snapshot, and reconciliation reads the schedule and
  updates it to \<^verbatim>\<open>DISABLED\<close> unless it is unreadable or already disabled: with a scheduler
  that answers, the trigger ends \<^verbatim>\<open>DISABLED\<close>, whatever instances the fleet holds.
\<close>

theorem early_exit_reconciles_empty_snapshot:
  assumes "describe_db_clusters w = Inr (cluster # cs)"
    and "cluster_readers cluster = [] \<or>
         (\<exists>results vals. get_metric_data w (cluster_readers cluster) = Inr results \<and>
            process_metrics (cluster_readers cluster) results [] = Inr vals \<and>
            (vals = [] \<or> avg_cpu fa vals \<ge> thr))"
    and "lambda_handler fa thr w = (resp, w', ev)"
  shows "statusCode resp = 200 \<and> reconcile_calls ev = [[], []] \<and> deleted_ids ev = [] \<and>
         GetSchedule \<in> set ev \<and>
         (UpdateSchedule x \<in> set ev \<longleftrightarrow>
            x = ''DISABLED'' \<and> get_schedule_error (sched w) = None \<and>
            schedule_state (sched w) \<noteq> ''DISABLED'') \<and>
         (get_schedule_error (sched w) = None \<and> update_schedule_error (sched w) = None \<longrightarrow>
            schedule_state (sched w') = ''DISABLED'')"
proof -
  from early_try [OF assms(1,2)] obtain subject msg
    where t: "handler_try fa thr w = reconciled_exit subject 200 msg [] [] w" by blast
  note h = early_handler [OF t]
  let ?w1 = "fst (disable_schedule w)"
  from h assms(3) have r: "resp = \<lparr>statusCode = 200, body = msg\<rparr>"
    and w': "w' = fst (disable_schedule ?w1)"
    and ev: "ev = Notify subject # Reconcile [] # snd (disable_schedule w) @
       Reconcile [] # snd (disable_schedule ?w1)"
    by simp_all
  have 1: "statusCode resp = 200" using r by simp
  have 2: "reconcile_calls ev = [[], []]" "deleted_ids ev = []"
    using disable_schedule_quiet [of w] disable_schedule_quiet [of ?w1]
    by (simp_all add: ev reconcile_calls_append deleted_ids_append)
  have 3: "GetSchedule \<in> set ev" by (simp add: ev disable_schedule_get)
  have 4: "UpdateSchedule x \<in> set ev \<longleftrightarrow>
            x = ''DISABLED'' \<and> get_schedule_error (sched w) = None \<and>
            schedule_state (sched w) \<noteq> ''DISABLED''"
    by (auto simp: ev disable_schedule_update disable_schedule_state disable_schedule_errors)
  have 5: "get_schedule_error (sched w) = None \<and> update_schedule_error (sched w) = None \<longrightarrow>
            schedule_state (sched w') = ''DISABLED''"
    by (simp add: w' disable_schedule_state disable_schedule_errors)
  from 1 2 3 4 5 show ?thesis by blast
qed

lemma busy_facts:
  "describe_db_clusters world_busy = Inr (\<lparr>DBClusterMembers =
        [writer_member,
         \<lparr>MemberIdentifier = ''lambda-aurora-reader-1'', MemberIsClusterWriter = False\<rparr>]\<rparr> # [])"
  "cluster_readers \<lparr>DBClusterMembers =
        [writer_member,
         \<lparr>MemberIdentifier = ''lambda-aurora-reader-1'', MemberIsClusterWriter = False\<rparr>]\<rparr>
     = [''lambda-aurora-reader-1'']"
  "get_metric_data world_busy [''lambda-aurora-reader-1'']
     = Inr [\<lparr>ResultIndex = Some 0, Values = [50, 70]\<rparr>]"
  "process_metrics [''lambda-aurora-reader-1''] [\<lparr>ResultIndex = Some 0, Values = [50, 70]\<rparr>] []
     = Inr [50, 70]"
  "avg_cpu exact_arith [50, 70] \<ge> 10"
  "describe_db_instances world_busy = Inr [inst_r1]"
  "get_schedule_error (sched world_busy) = None"
  "update_schedule_error (sched world_busy) = None"
  "schedule_state (sched world_busy) = ''ENABLED''"
  by (simp_all add: world_busy_def world_tags_def writer_member_def cluster_readers_def
      reader_of_result_def avg_cpu_def exact_arith_def enabled_scheduler_def)

lemma busy_owned: "tagged_lambda_instances world_busy [inst_r1] = [inst_r1]"
  by (simp add: tagged_lambda_instances_def lambda_instances_of_def is_lambda_name_def
      is_lambda_managed_instance_def world_busy_def world_tags_def inst_r1_def
      missing_tags_def tags_dict_def dict_get_def REQUIRED_TAGS_FOR_DELETION_def owned_tags_def)

theorem scheduler_disabled_iff_no_owned_witness:
  "tagged_lambda_instances world_busy [inst_r1] = [inst_r1]
   \<and> fst (check_and_disable_eventbridge world_busy [inst_r1]) = world_busy
   \<and> GetSchedule \<notin> set (snd (check_and_disable_eventbridge world_busy [inst_r1]))
   \<and> tagged_lambda_instances world_busy [] = []
   \<and> GetSchedule \<in> set (snd (check_and_disable_eventbridge world_busy []))
   \<and> UpdateSchedule ''DISABLED'' \<in> set (snd (check_and_disable_eventbridge world_busy []))
   \<and> schedule_state (sched (fst (check_and_disable_eventbridge world_busy []))) = ''DISABLED''
   \<and> UpdateSchedule ''DISABLED'' \<notin>
        set (snd (check_and_disable_eventbridge (fst (check_and_disable_eventbridge world_busy [])) []))
   \<and> UpdateSchedule ''ENABLED'' \<notin>
        set (snd (enable_eventbridge_rule (fst (enable_eventbridge_rule enabled_scheduler))))"
proof -
  have e: "update_schedule_error enabled_scheduler = None"
    by (simp add: enabled_scheduler_def)
  have n: "schedule_state (sched world_busy) \<noteq> ''DISABLED''"
    by (simp add: busy_facts)
  note a = scheduler_disabled_iff_no_owned
      [of world_busy "[inst_r1]" "''DISABLED''" inst_r1 enabled_scheduler]
  note b = scheduler_disabled_iff_no_owned
      [of world_busy "[]" "''DISABLED''" inst_r1 enabled_scheduler]
  note c = scheduler_disabled_iff_no_owned
      [of world_busy "[]" "''ENABLED''" inst_r1 enabled_scheduler]
  from a busy_owned have 1: "fst (check_and_disable_eventbridge world_busy [inst_r1]) = world_busy"
    "GetSchedule \<notin> set (snd (check_and_disable_eventbridge world_busy [inst_r1]))"
    by simp_all
  from b n busy_facts(7,8) tagged_nil [of world_busy]
  have 2: "GetSchedule \<in> set (snd (check_and_disable_eventbridge world_busy []))"
    "UpdateSchedule ''DISABLED'' \<in> set (snd (check_and_disable_eventbridge world_busy []))"
    "schedule_state (sched (fst (check_and_disable_eventbridge world_busy []))) = ''DISABLED''"
    "UpdateSchedule ''DISABLED'' \<notin>
        set (snd (check_and_disable_eventbridge (fst (check_and_disable_eventbridge world_busy [])) []))"
    by blast+
  from c e have 3: "UpdateSchedule ''ENABLED'' \<notin>
        set (snd (enable_eventbridge_rule (fst (enable_eventbridge_rule enabled_scheduler))))"
    by blast
  from 1 2 3 busy_owned tagged_nil [of world_busy] show ?thesis by blast
qed

theorem early_exit_reconciles_empty_snapshot_witness:
  "describe_db_instances world_busy = Inr [inst_r1]
   \<and> tagged_lambda_instances world_busy [inst_r1] = [inst_r1]
   \<and> schedule_state (sched world_busy) = ''ENABLED''
   \<and> avg_cpu exact_arith [50, 70] \<ge> 10
   \<and> statusCode (fst (lambda_handler exact_arith 10 world_busy)) = 200
   \<and> reconcile_calls (snd (snd (lambda_handler exact_arith 10 world_busy))) = [[], []]
   \<and> UpdateSchedule ''DISABLED'' \<in> set (snd (snd (lambda_handler exact_arith 10 world_busy)))
   \<and> schedule_state (sched (fst (snd (lambda_handler exact_arith 10 world_busy)))) = ''DISABLED''"
proof -
  have early: "cluster_readers \<lparr>DBClusterMembers =
        [writer_member,
         \<lparr>MemberIdentifier = ''lambda-aurora-reader-1'', MemberIsClusterWriter = False\<rparr>]\<rparr> = [] \<or>
     (\<exists>results vals. get_metric_data world_busy (cluster_readers \<lparr>DBClusterMembers =
        [writer_member,
         \<lparr>MemberIdentifier = ''lambda-aurora-reader-1'', MemberIsClusterWriter = False\<rparr>]\<rparr>)
           = Inr results \<and>
        process_metrics (cluster_readers \<lparr>DBClusterMembers =
        [writer_member,
         \<lparr>MemberIdentifier = ''lambda-aurora-reader-1'', MemberIsClusterWriter = False\<rparr>]\<rparr>)
           results [] = Inr vals \<and>
        (vals = [] \<or> avg_cpu exact_arith vals \<ge> 10))"
    using busy_facts(2,3,4,5) by auto
  have run: "lambda_handler exact_arith 10 world_busy =
     (fst (lambda_handler exact_arith 10 world_busy), fst (snd (lambda_handler exact_arith 10 world_busy)),
      snd (snd (lambda_handler exact_arith 10 world_busy)))"
    by simp
  have n: "schedule_state (sched world_busy) \<noteq> ''DISABLED''"
    by (simp add: busy_facts)
  from early_exit_reconciles_empty_snapshot
    [OF busy_facts(1) early run, of "''DISABLED''"] n busy_facts(7,8)
  have "statusCode (fst (lambda_handler exact_arith 10 world_busy)) = 200"
    "reconcile_calls (snd (snd (lambda_handler exact_arith 10 world_busy))) = [[], []]"
    "UpdateSchedule ''DISABLED'' \<in> set (snd (snd (lambda_handler exact_arith 10 world_busy)))"
    "schedule_state (sched (fst (snd (lambda_handler exact_arith 10 world_busy)))) = ''DISABLED''"
    by blast+
  with busy_facts(5,6,9) busy_owned show ?thesis by blast
qed

section \<open>Properties of the scale-up handler\<close>


lemma trace_emit [simp]: "trace (emit ev st) = trace st @ ev"
  by (simp add: emit_def)





















subsection \<open>The zone distribution as a dictionary\<close>








lemma initial_get_gen:
  "dict_get (foldl (\<lambda>d az. dict_set az (0::nat) d) d azs) z =
     (if z \<in> set azs then Some 0 else dict_get d z)"
  by (induction azs arbitrary: d) (auto simp: dict_get_dict_set)

lemma initial_get:
  "dict_get (initial_readers_per_az azs) z = (if z \<in> set azs then Some 0 else None)"
  by (simp add: initial_readers_per_az_def initial_get_gen) (simp add: dict_get_def)

lemma count_instance_get:
  "dict_get (count_instance cfg d db) z =
     (case dict_get d z of
        None \<Rightarrow> None
      | Some n \<Rightarrow> Some (n + (if counted_reader cfg db \<and> AvailabilityZone db = Some z then 1 else 0)))"
  by (auto simp: count_instance_def dict_get_dict_set split: option.splits)

lemma foldl_count_get:
  "dict_get (foldl (count_instance cfg) d insts) z =
     (case dict_get d z of
        None \<Rightarrow> None
      | Some n \<Rightarrow> Some (n + length (filter (\<lambda>db. counted_reader cfg db \<and> AvailabilityZone db = Some z) insts)))"
  by (induction insts arbitrary: d) (auto simp: count_instance_get split: option.splits)

lemma readers_per_az_counts:
  "get_aurora_readers_per_az cfg (Inr insts) = Inr d \<Longrightarrow>
     dict_get d z =
       (if z \<in> set (AVAILABILITY_ZONES cfg)
        then Some (length (filter (\<lambda>db. counted_reader cfg db \<and> AvailabilityZone db = Some z) insts))
        else None)"
  by (auto simp: get_aurora_readers_per_az_def foldl_count_get initial_get)






lemma check_capacity_true_iff:
  "fst (check_capacity P t az st) = Inr True \<longleftrightarrow>
     (\<exists>rid p1 p2. ec2_create_capacity_reservation P (prov st) t az = (Inr rid, p1) \<and>
        ec2_cancel_capacity_reservation P p1 rid = (None, p2))"
  by (auto simp: check_capacity_def capacity_except_def split: prod.splits sum.splits option.splits)

lemma check_capacity_reserve_error:
  "ec2_create_capacity_reservation P (prov st) t az = (Inl e, p1) \<Longrightarrow>
     fst (check_capacity P t az st) = (if is_client_error e then Inr False else Inl e) \<and>
     (is_client_error e \<and> \<not> sublist ''InsufficientInstanceCapacity'' (str e) \<longrightarrow>
        LogError ''ODCR error'' \<in> set (trace (snd (check_capacity P t az st))))"
  by (simp add: check_capacity_def capacity_except_def)

lemma check_capacity_release_error:
  "ec2_create_capacity_reservation P (prov st) t az = (Inr rid, p1) \<Longrightarrow>
   ec2_cancel_capacity_reservation P p1 rid = (Some e, p2) \<Longrightarrow>
     fst (check_capacity P t az st) = (if is_client_error e then Inr False else Inl e)"
  by (simp add: check_capacity_def capacity_except_def)

lemma check_capacity_false_or_true:
  "fst (check_capacity P t az st) = Inl e \<Longrightarrow> \<not> is_client_error e"
  by (auto simp: check_capacity_def capacity_except_def
      split: prod.splits sum.splits option.splits if_splits)
















text \<open>
  The outcomes of the capacity probe, case by case. It answers true exactly when the trial
  reservation and its release both succeed. When the reservation fails with a
  \<^verbatim>\<open>ClientError\<close> it answers false: for an explicit insufficient-capacity error, and for any
  other service error (permissions, throttling, rejected parameters), the latter with an
  error log entry. When the release fails with a \<^verbatim>\<open>ClientError\<close> it answers false as well.
  An exception that is not a \<^verbatim>\<open>ClientError\<close> is not caught and reaches the caller; nothing
  else is ever raised.
\<close>

theorem check_capacity_outcomes:
  "(fst (check_capacity P t az st) = Inr True \<longleftrightarrow>
      (\<exists>rid p1 p2. ec2_create_capacity_reservation P (prov st) t az = (Inr rid, p1) \<and>
         ec2_cancel_capacity_reservation P p1 rid = (None, p2)))
   \<and> (ec2_create_capacity_reservation P (prov st) t az = (Inl e, p1) \<and> is_client_error e \<longrightarrow>
        fst (check_capacity P t az st) = Inr False \<and>
        (\<not> sublist ''InsufficientInstanceCapacity'' (str e) \<longrightarrow>
           LogError ''ODCR error'' \<in> set (trace (snd (check_capacity P t az st)))))
   \<and> (ec2_create_capacity_reservation P (prov st) t az = (Inl e, p1) \<and> \<not> is_client_error e \<longrightarrow>
        fst (check_capacity P t az st) = Inl e)
   \<and> (ec2_create_capacity_reservation P (prov st) t az = (Inr rid, p1) \<and>
        ec2_cancel_capacity_reservation P p1 rid = (Some e, p2) \<longrightarrow>
        fst (check_capacity P t az st) = (if is_client_error e then Inr False else Inl e))
   \<and> (fst (check_capacity P t az st) = Inl e \<longrightarrow> \<not> is_client_error e)"
proof -
  have a: "fst (check_capacity P t az st) = Inr True \<longleftrightarrow>
      (\<exists>rid p1 p2. ec2_create_capacity_reservation P (prov st) t az = (Inr rid, p1) \<and>
         ec2_cancel_capacity_reservation P p1 rid = (None, p2))"
    by (rule check_capacity_true_iff)
  have b: "ec2_create_capacity_reservation P (prov st) t az = (Inl e, p1) \<and> is_client_error e \<longrightarrow>
        fst (check_capacity P t az st) = Inr False \<and>
        (\<not> sublist ''InsufficientInstanceCapacity'' (str e) \<longrightarrow>
           LogError ''ODCR error'' \<in> set (trace (snd (check_capacity P t az st))))"
    using check_capacity_reserve_error [of P st t az e p1] by simp
  have c: "ec2_create_capacity_reservation P (prov st) t az = (Inl e, p1) \<and> \<not> is_client_error e \<longrightarrow>
        fst (check_capacity P t az st) = Inl e"
    using check_capacity_reserve_error [of P st t az e p1] by simp
  have d: "ec2_create_capacity_reservation P (prov st) t az = (Inr rid, p1) \<and>
        ec2_cancel_capacity_reservation P p1 rid = (Some e, p2) \<longrightarrow>
        fst (check_capacity P t az st) = (if is_client_error e then Inr False else Inl e)"
    using check_capacity_release_error [of P st t az rid p1 e p2] by blast
  have f: "fst (check_capacity P t az st) = Inl e \<longrightarrow> \<not> is_client_error e"
    using check_capacity_false_or_true [of P t az st e] by blast
  from a b c d f show ?thesis by blast
qed

text \<open>
  Claim C8, at the input where the code departs from it: when the reservation call raises
  an exception that is not a \<^verbatim>\<open>ClientError\<close> (here a connection failure), the probe does not
  answer false but raises the exception past its boundary.
\<close>

theorem check_capacity_raises:
  "fst (check_capacity provider_down ''r6i.32xlarge'' ''eu-central-1a'' st0)
     = Inl (OtherException ''EndpointConnectionError'')"
  by (simp add: check_capacity_def capacity_except_def provider_down_def fixed_provider_def)

theorem check_capacity_outcomes_witness:
  "fst (check_capacity provider_ok ''P'' ''a'' st0) = Inr True
   \<and> fst (check_capacity provider_none ''P'' ''a'' st0) = Inr False
   \<and> fst (check_capacity provider_denied ''P'' ''a'' st0) = Inr False
   \<and> LogError ''ODCR error'' \<in> set (trace (snd (check_capacity provider_denied ''P'' ''a'' st0)))
   \<and> fst (check_capacity provider_down ''P'' ''a'' st0) = Inl (OtherException ''EndpointConnectionError'')"
proof -
  have ok: "ec2_create_capacity_reservation provider_ok (prov st0) ''P'' ''a'' = (Inr ''cr-1'', ())"
    "ec2_cancel_capacity_reservation provider_ok () ''cr-1'' = (None, ())"
    by (simp_all add: provider_ok_def fixed_provider_def st0_def)
  have none: "ec2_create_capacity_reservation provider_none (prov st0) ''P'' ''a''
               = (Inl (ClientError ''InsufficientInstanceCapacity''), ())"
    by (simp add: provider_none_def fixed_provider_def st0_def)
  have den: "ec2_create_capacity_reservation provider_denied (prov st0) ''P'' ''a''
               = (Inl (ClientError ''UnauthorizedOperation''), ())"
    by (simp add: provider_denied_def fixed_provider_def st0_def)
  have down: "ec2_create_capacity_reservation provider_down (prov st0) ''P'' ''a''
               = (Inl (OtherException ''EndpointConnectionError''), ())"
    by (simp add: provider_down_def fixed_provider_def st0_def)
  have ns: "\<not> sublist ''InsufficientInstanceCapacity'' (str (ClientError ''UnauthorizedOperation''))"
    by code_simp
  from check_capacity_outcomes [of provider_ok "''P''" "''a''" st0] ok
  have 1: "fst (check_capacity provider_ok ''P'' ''a'' st0) = Inr True" by blast
  from check_capacity_outcomes [of provider_none "''P''" "''a''" st0
      "ClientError ''InsufficientInstanceCapacity''" "()"] none
  have 2: "fst (check_capacity provider_none ''P'' ''a'' st0) = Inr False" by simp
  from check_capacity_outcomes [of provider_denied "''P''" "''a''" st0
      "ClientError ''UnauthorizedOperation''" "()"] den ns
  have 3: "fst (check_capacity provider_denied ''P'' ''a'' st0) = Inr False"
    "LogError ''ODCR error'' \<in> set (trace (snd (check_capacity provider_denied ''P'' ''a'' st0)))"
    by simp_all
  from check_capacity_outcomes [of provider_down "''P''" "''a''" st0
      "OtherException ''EndpointConnectionError''" "()"] down
  have 4: "fst (check_capacity provider_down ''P'' ''a'' st0) = Inl (OtherException ''EndpointConnectionError'')"
    by simp
  from 1 2 3 4 show ?thesis by blast
qed

end
